theory Spec2Isabelle
  imports Main
begin

section \<open>JavaScript values as the route handlers see them\<close>

text \<open>
  The handlers work on what \<^verbatim>\<open>JSON.parse\<close> returns and on fields of the request.
  A value is one of the JSON kinds, or \<^verbatim>\<open>undefined\<close> (what reading an absent
  property gives). A string is the list of its UTF-16 code units, which is what
  \<^verbatim>\<open>.length\<close> counts; the literals below are ASCII, one unit per character.
  Numbers are the integers (ids, lengths); no claim reads a fraction.
  An object is the list of its own properties in enumeration order.
\<close>

datatype jsval =
    JUndefined
  | JNull
  | JBool bool
  | JNum int
  | JStr string
  | JArr "jsval list"
  | JObj "(string \<times> jsval) list"

text \<open>\<^verbatim>\<open>!v\<close> is \<open>\<not> truthy v\<close>.\<close>

fun truthy :: "jsval \<Rightarrow> bool" where
  "truthy JUndefined = False"
| "truthy JNull = False"
| "truthy (JBool b) = b"
| "truthy (JNum n) = (n \<noteq> 0)"
| "truthy (JStr s) = (s \<noteq> [])"
| "truthy (JArr xs) = True"
| "truthy (JObj kvs) = True"

text \<open>
  \<^verbatim>\<open>a === b\<close>. Primitives compare by kind and value. Objects and arrays compare by
  reference; in every comparison of the handlers one operand comes from the request and
  the other from a fresh \<^verbatim>\<open>JSON.parse\<close>, so two objects are never the same reference.
\<close>

fun strict_eq :: "jsval \<Rightarrow> jsval \<Rightarrow> bool" where
  "strict_eq (JArr xs) b = False"
| "strict_eq (JObj kvs) b = False"
| "strict_eq a b = (a = b)"

text \<open>
  \<^verbatim>\<open>v.k\<close> for the property names the handlers read (\<^verbatim>\<open>id\<close>, \<^verbatim>\<open>userId\<close>,
  \<^verbatim>\<open>email\<close>, \<^verbatim>\<open>title\<close>, \<^verbatim>\<open>length\<close>, ...). \<open>None\<close> is the TypeError of
  reading a property of \<^verbatim>\<open>null\<close> or \<^verbatim>\<open>undefined\<close>; an absent property reads as
  \<^verbatim>\<open>undefined\<close>.
\<close>

definition own_prop :: "(string \<times> jsval) list \<Rightarrow> string \<Rightarrow> jsval" where
  "own_prop kvs k = (case map_of kvs k of None \<Rightarrow> JUndefined | Some v \<Rightarrow> v)"

fun get_prop :: "jsval \<Rightarrow> string \<Rightarrow> jsval option" where
  "get_prop JUndefined k = None"
| "get_prop JNull k = None"
| "get_prop (JObj kvs) k =
     Some (own_prop kvs k)"
| "get_prop (JArr xs) k =
     Some (if k = ''length'' then JNum (int (length xs)) else JUndefined)"
| "get_prop (JStr s) k =
     Some (if k = ''length'' then JNum (int (length s)) else JUndefined)"
| "get_prop (JBool b) k = Some JUndefined"
| "get_prop (JNum n) k = Some JUndefined"

text \<open>
  \<^verbatim>\<open>u.k = v\<close> in module (strict) code. On an object the property is overwritten in
  place or appended. On an array a named property is created, which neither the later
  reads of the handler nor \<^verbatim>\<open>JSON.stringify\<close> see. On a primitive the assignment
  throws (\<open>None\<close>).
\<close>

fun set_prop :: "jsval \<Rightarrow> string \<Rightarrow> jsval \<Rightarrow> jsval option" where
  "set_prop (JObj kvs) k v =
     Some (JObj (if k \<in> set (map fst kvs)
                 then map (\<lambda>(k', v'). if k' = k then (k', v) else (k', v')) kvs
                 else kvs @ [(k, v)]))"
| "set_prop (JArr xs) k v = Some (JArr xs)"
| "set_prop u k v = None"

text \<open>
  The conversion of a value to a primitive, which \<^verbatim>\<open>x < n\<close> starts with, can throw.
  A parsed object has no callable property, so an own \<^verbatim>\<open>toString\<close> shadows the
  inherited method with a value that cannot be called: the inherited \<^verbatim>\<open>valueOf\<close>
  returns the object itself (an own one cannot be called either), no method gives a
  primitive, and the conversion throws a TypeError. Without an own \<^verbatim>\<open>toString\<close> the
  object converts to \<^verbatim>\<open>'[object Object]'\<close>. An array converts by \<^verbatim>\<open>join\<close>, which
  converts each element in the same way.
\<close>

fun to_primitive_throws :: "jsval \<Rightarrow> bool"
and some_element_throws :: "jsval list \<Rightarrow> bool" where
  "to_primitive_throws (JObj kvs) = (''toString'' \<in> set (map fst kvs))"
| "to_primitive_throws (JArr xs) = some_element_throws xs"
| "to_primitive_throws JUndefined = False"
| "to_primitive_throws JNull = False"
| "to_primitive_throws (JBool b) = False"
| "to_primitive_throws (JNum k) = False"
| "to_primitive_throws (JStr s) = False"
| "some_element_throws [] = False"
| "some_element_throws (x # xs) =
     (if to_primitive_throws x then True else some_element_throws xs)"

text \<open>
  \<^verbatim>\<open>x < n\<close> for a numeric literal \<open>n\<close>; \<open>None\<close> is the TypeError of a conversion that
  throws. \<^verbatim>\<open>undefined\<close> converts to NaN (every comparison false), \<^verbatim>\<open>null\<close> to 0,
  booleans to 0 and 1, an object that converts at all to NaN. The number that a string
  or the text of an array stands for is the engine's; it is the parameter
  \<open>to_number\<close> (\<open>None\<close> for NaN).
\<close>

definition js_lt :: "(jsval \<Rightarrow> int option) \<Rightarrow> jsval \<Rightarrow> int \<Rightarrow> bool option" where
  "js_lt to_number x n =
     (case x of
        JUndefined \<Rightarrow> Some False
      | JNull \<Rightarrow> Some (0 < n)
      | JBool b \<Rightarrow> Some ((if b then 1 else 0) < n)
      | JNum k \<Rightarrow> Some (k < n)
      | JStr s \<Rightarrow> Some (case to_number x of None \<Rightarrow> False | Some k \<Rightarrow> k < n)
      | JArr xs \<Rightarrow>
          (if to_primitive_throws x then None
           else Some (case to_number x of None \<Rightarrow> False | Some k \<Rightarrow> k < n))
      | JObj kvs \<Rightarrow> (if to_primitive_throws x then None else Some False))"

subsection \<open>Array methods with callbacks that may throw\<close>

text \<open>
  The callbacks of \<^verbatim>\<open>find\<close>, \<^verbatim>\<open>filter\<close> and \<^verbatim>\<open>map\<close> read properties of each
  element, which throws on a \<^verbatim>\<open>null\<close> element. The outer \<open>None\<close> is that exception;
  the elements are visited in order and \<^verbatim>\<open>find\<close> stops at the first match.
\<close>

fun js_find :: "(jsval \<Rightarrow> bool option) \<Rightarrow> jsval list \<Rightarrow> jsval option" where
  "js_find p [] = Some JUndefined"
| "js_find p (x # xs) =
     (case p x of
        None \<Rightarrow> None
      | Some True \<Rightarrow> Some x
      | Some False \<Rightarrow> js_find p xs)"

fun js_filter :: "(jsval \<Rightarrow> bool option) \<Rightarrow> jsval list \<Rightarrow> jsval list option" where
  "js_filter p [] = Some []"
| "js_filter p (x # xs) =
     (case p x of
        None \<Rightarrow> None
      | Some b \<Rightarrow>
          (case js_filter p xs of
             None \<Rightarrow> None
           | Some ys \<Rightarrow> Some (if b then x # ys else ys)))"

fun js_map :: "(jsval \<Rightarrow> jsval option) \<Rightarrow> jsval list \<Rightarrow> jsval list option" where
  "js_map f [] = Some []"
| "js_map f (x # xs) =
     (case f x of
        None \<Rightarrow> None
      | Some y \<Rightarrow>
          (case js_map f xs of
             None \<Rightarrow> None
           | Some ys \<Rightarrow> Some (y # ys)))"

subsection \<open>Files and JSON text\<close>

text \<open>
  \<^verbatim>\<open>JSON.stringify(v, null, 2)\<close> followed by \<^verbatim>\<open>JSON.parse\<close> gives \<open>json_of v\<close>:
  a property whose value is \<^verbatim>\<open>undefined\<close> is left out of the text, an
  \<^verbatim>\<open>undefined\<close> array element is written as \<^verbatim>\<open>null\<close>; everything else comes back
  as it was. The handlers only ever stringify an array, so the first equation for
  \<^verbatim>\<open>undefined\<close> itself is never used.
\<close>

fun json_of :: "jsval \<Rightarrow> jsval"
and json_of_elems :: "jsval list \<Rightarrow> jsval list"
and json_of_props :: "(string \<times> jsval) list \<Rightarrow> (string \<times> jsval) list" where
  "json_of (JArr xs) = JArr (json_of_elems xs)"
| "json_of (JObj kvs) = JObj (json_of_props kvs)"
| "json_of JUndefined = JUndefined"
| "json_of JNull = JNull"
| "json_of (JBool b) = JBool b"
| "json_of (JNum n) = JNum n"
| "json_of (JStr s) = JStr s"
| "json_of_elems [] = []"
| "json_of_elems (x # xs) =
     (if x = JUndefined then JNull else json_of x) # json_of_elems xs"
| "json_of_props [] = []"
| "json_of_props (kv # kvs) =
     (if snd kv = JUndefined then json_of_props kvs
      else (fst kv, json_of (snd kv)) # json_of_props kvs)"

text \<open>
  The text of a file is kept as what it denotes: \<open>Json v\<close> is a text that
  \<^verbatim>\<open>JSON.parse\<close> reads as \<open>v\<close>, \<open>Malformed\<close> a text on which it throws (an empty or
  truncated file, for one), and \<open>Unreadable e\<close> a path whose read stream emits
  \<^verbatim>\<open>'error'\<close> with an error printed as \<open>e\<close>.
\<close>

datatype fcontent = Unreadable string | Malformed | Json jsval

definition JSON_stringify :: "jsval \<Rightarrow> fcontent" where
  "JSON_stringify v = Json (json_of v)"

definition JSON_parse :: "fcontent \<Rightarrow> jsval option" where
  "JSON_parse f = (case f of Json v \<Rightarrow> Some v | _ \<Rightarrow> None)"

text \<open>
  How a write to the file ends is the environment's: it completes, or it fails and
  leaves \<open>residue\<close> at the path. The handlers write to the path itself (no temporary
  file), so after a failure the path holds whatever the failed write left there.
\<close>

datatype write_outcome = WriteOk | WriteFails fcontent

definition settle :: "write_outcome \<Rightarrow> fcontent \<Rightarrow> fcontent" where
  "settle wr text = (case wr of WriteOk \<Rightarrow> text | WriteFails residue \<Rightarrow> residue)"

section \<open>Requests, responses and what a handler does\<close>

text \<open>
  Of a request the handlers read \<^verbatim>\<open>req.params.id\<close>, the caller's id that the
  authentication middleware stored (\<^verbatim>\<open>req.id\<close>; \<^verbatim>\<open>req.userId\<close> in the GET route) and
  the properties of \<^verbatim>\<open>req.body\<close>, the object the body parser built.
\<close>

record request =
  params_id :: jsval
  req_id :: jsval
  req_userId :: jsval
  body :: "(string \<times> jsval) list"

text \<open>
  An error value, as far as the response text shows it: the error of a failed read or
  load (with its text), or a TypeError thrown by the handler's own code.
\<close>

datatype js_error = IOError string | TypeError

text \<open>
  What \<^verbatim>\<open>res.send\<close> is given: a fixed message, a message with an error appended
  (\<^verbatim>\<open>'...' + err\<close>), or data.
\<close>

datatype reply = Msg string | MsgErr string js_error | Payload jsval

text \<open>
  A handler's run is the list of what happens, in order. Node runs each callback to
  its end before it delivers the completion of any input or output that the callback
  started, so a \<open>WriteSettled\<close> comes after everything the issuing callback still did.
  \<open>Responded\<close> is the call of \<^verbatim>\<open>res.status(c).send(b)\<close>, \<open>Emitted\<close> the call of
  \<^verbatim>\<open>eventEmitter.emit('profileUpdated', v)\<close>, \<open>Uncaught\<close> an exception that leaves a
  callback with no handler around it (the process ends; the request gets no response
  from there on). \<open>Thrown\<close> is an exception that leaves the route handler itself, before
  any callback: Express catches it and answers 500 from its own error handler.
  \<open>NotRouted\<close> is a request whose path the route does not match: its handler does not
  run and the router passes the request on (with nothing else mounted for it, Express
  answers 404 \<^verbatim>\<open>Cannot DELETE ...\<close>).
  The listener of the event hands a mail to the transporter and logs the outcome; it
  sends nothing to the client and is not part of the run.
\<close>

datatype event =
    ReadOpened
  | ReadEnded
  | ReadFailed
  | WriteIssued fcontent
  | WriteSettled bool
  | Responded nat reply
  | Emitted jsval
  | Uncaught
  | Thrown
  | NotRouted

text \<open>
  How a write through a stream ends. The handlers attach no listener to their write
  streams: when the write fails the stream emits \<^verbatim>\<open>'error'\<close> with nobody listening,
  which Node raises as an uncaught exception.
\<close>

definition stream_settles :: "write_outcome \<Rightarrow> event list" where
  "stream_settles wr =
     (case wr of
        WriteOk \<Rightarrow> [WriteSettled True]
      | WriteFails residue \<Rightarrow> [WriteSettled False, Uncaught])"

subsection \<open>POST /post (routes/create-post.js)\<close>

text \<open>
  \<^verbatim>\<open>!v || v.length < n\<close>, the second operand read only when the first is false;
  \<open>None\<close> when the comparison throws.
\<close>

definition missing_or_short :: "(jsval \<Rightarrow> int option) \<Rightarrow> jsval \<Rightarrow> int \<Rightarrow> bool option" where
  "missing_or_short to_number v n =
     (if truthy v
      then (case get_prop v ''length'' of
              None \<Rightarrow> None
            | Some l \<Rightarrow> js_lt to_number l n)
      else Some True)"

text \<open>
  \<open>uuid\<close> is what \<^verbatim>\<open>uuidv4()\<close> returns and \<open>now\<close> what
  \<^verbatim>\<open>new Date().toISOString()\<close> returns for this request. The two checks stand before
  the \<^verbatim>\<open>try\<close>, so an exception in them leaves the handler. The write stream gets no
  listener: the response is sent in the callback that issues the write.
\<close>

definition create_post ::
  "(jsval \<Rightarrow> int option) \<Rightarrow> string \<Rightarrow> string \<Rightarrow> write_outcome \<Rightarrow> request \<Rightarrow> fcontent
     \<Rightarrow> event list \<times> fcontent" where
  "create_post to_number uuid now wr req posts_file =
     (let title = own_prop (body req) ''title'';
          description = own_prop (body req) ''description'';
          userId = req_id req
      in case missing_or_short to_number title 3 of
           None \<Rightarrow> ([Thrown], posts_file)
         | Some True \<Rightarrow>
             ([Responded 400
                 (Msg ''Title is required and should be at least 3 characters long.'')],
              posts_file)
         | Some False \<Rightarrow>
            (case missing_or_short to_number description 10 of
               None \<Rightarrow> ([Thrown], posts_file)
             | Some True \<Rightarrow>
                 ([Responded 400
                     (Msg ''Description is required and should be at least 10 characters long.'')],
                  posts_file)
             | Some False \<Rightarrow>
                 (let post = JObj [(''id'', JStr uuid), (''title'', title),
                                   (''description'', description), (''date'', JStr now),
                                   (''userId'', userId)]
                  in case posts_file of
                       Unreadable e \<Rightarrow>
                         ([ReadOpened, ReadFailed,
                           Responded 500 (Msg ''An error occurred. Please try again later.'')],
                          posts_file)
                     | _ \<Rightarrow>
                         (case JSON_parse posts_file of
                            Some (JArr posts) \<Rightarrow>
                              (let text = JSON_stringify (JArr (posts @ [post]))
                               in ([ReadOpened, ReadEnded, WriteIssued text,
                                    Responded 201 (Msg ''Post created successfully.'')]
                                   @ stream_settles wr,
                                   settle wr text))
                          | _ \<Rightarrow> ([ReadOpened, ReadEnded, Uncaught], posts_file)))))"

subsection \<open>DELETE post/:id (unnamed/part_000)\<close>

text \<open>
  First the handler that the route is given, then the route itself, which decides
  whether the handler runs at all.
\<close>

text \<open>\<^verbatim>\<open>post.id === id && post.userId === userId\<close>\<close>

definition is_callers_post :: "jsval \<Rightarrow> jsval \<Rightarrow> jsval \<Rightarrow> bool option" where
  "is_callers_post id' userId post =
     (case get_prop post ''id'' of
        None \<Rightarrow> None
      | Some pid \<Rightarrow>
          if strict_eq pid id'
          then (case get_prop post ''userId'' of
                  None \<Rightarrow> None
                | Some uid \<Rightarrow> Some (strict_eq uid userId))
          else Some False)"

text \<open>\<^verbatim>\<open>post.id !== id && post.userId === userId\<close>, the callback of the filter.\<close>

definition is_kept :: "jsval \<Rightarrow> jsval \<Rightarrow> jsval \<Rightarrow> bool option" where
  "is_kept id' userId post =
     (case get_prop post ''id'' of
        None \<Rightarrow> None
      | Some pid \<Rightarrow>
          if strict_eq pid id'
          then Some False
          else (case get_prop post ''userId'' of
                  None \<Rightarrow> None
                | Some uid \<Rightarrow> Some (strict_eq uid userId)))"

definition delete_post ::
  "write_outcome \<Rightarrow> request \<Rightarrow> fcontent \<Rightarrow> event list \<times> fcontent" where
  "delete_post wr req posts_file =
     (let id' = params_id req;
          userId = req_id req
      in if truthy id'
         then
           if truthy userId
           then (case posts_file of
                   Unreadable e \<Rightarrow>
                     ([ReadOpened, ReadFailed,
                       Responded 500 (Msg ''An error occurred. Please try again later.'')],
                      posts_file)
                 | _ \<Rightarrow>
                     (case JSON_parse posts_file of
                        Some (JArr posts) \<Rightarrow>
                          (case js_find (is_callers_post id' userId) posts of
                             None \<Rightarrow> ([ReadOpened, ReadEnded, Uncaught], posts_file)
                           | Some post \<Rightarrow>
                               if truthy post
                               then (case js_filter (is_kept id' userId) posts of
                                       None \<Rightarrow> ([ReadOpened, ReadEnded, Uncaught], posts_file)
                                     | Some kept \<Rightarrow>
                                         (let text = JSON_stringify (JArr kept)
                                          in ([ReadOpened, ReadEnded, WriteIssued text,
                                               Responded 201 (Msg ''Post deleted successfully.'')]
                                              @ stream_settles wr,
                                              settle wr text)))
                               else ([ReadOpened, ReadEnded,
                                      Responded 404 (Msg ''Post not found.'')],
                                     posts_file))
                      | _ \<Rightarrow> ([ReadOpened, ReadEnded, Uncaught], posts_file)))
           else ([Responded 400 (Msg ''User ID is required.'')], posts_file)
         else ([Responded 400 (Msg ''Post ID is required.'')], posts_file))"

text \<open>
  The route is registered as \<^verbatim>\<open>router.delete('post/:id', ...)\<close>, with no leading
  slash. Express compiles that path to the regular expression
  \<^verbatim>\<open>/^post\/(?:([^\/]+?))\/?$/i\<close> and tests it against the path of the request as the
  router sees it (what follows the mount point), which begins with a slash.
  \<open>is_id_segment\<close> is the part after \<^verbatim>\<open>post/\<close>: one or more characters other than
  a slash, then at most one slash, then the end.
\<close>

definition is_id_segment :: "string \<Rightarrow> bool" where
  "is_id_segment rest =
     (case rev rest of
        [] \<Rightarrow> False
      | c # before \<Rightarrow>
          if c = CHR ''/''
          then (if before = [] then False else CHR ''/'' \<notin> set before)
          else CHR ''/'' \<notin> set before)"

fun matches_post_id :: "string \<Rightarrow> bool" where
  "matches_post_id (c1 # c2 # c3 # c4 # c5 # rest) =
     (if c1 = CHR ''p'' \<or> c1 = CHR ''P'' then
      if c2 = CHR ''o'' \<or> c2 = CHR ''O'' then
      if c3 = CHR ''s'' \<or> c3 = CHR ''S'' then
      if c4 = CHR ''t'' \<or> c4 = CHR ''T'' then
      if c5 = CHR ''/'' then is_id_segment rest
      else False else False else False else False else False)"
| "matches_post_id path = False"

text \<open>
  A DELETE request as the router of \<^verbatim>\<open>part_000\<close> treats it: \<open>path\<close> is the path of the
  request, \<open>req\<close> the request as the handler would see it.
\<close>

definition delete_route ::
  "write_outcome \<Rightarrow> string \<Rightarrow> request \<Rightarrow> fcontent \<Rightarrow> event list \<times> fcontent" where
  "delete_route wr path req posts_file =
     (if matches_post_id path then delete_post wr req posts_file
      else ([NotRouted], posts_file))"

subsection \<open>PUT /profile-update (routes/profile-update.js)\<close>

text \<open>
  The callback of \<^verbatim>\<open>users.map\<close>:
  \<^verbatim>\<open>if (u.id === id) { u.firstName = firstName; u.lastName = lastName; } return u;\<close>
\<close>

definition update_user :: "jsval \<Rightarrow> jsval \<Rightarrow> jsval \<Rightarrow> jsval \<Rightarrow> jsval option" where
  "update_user id' firstName lastName u =
     (case get_prop u ''id'' of
        None \<Rightarrow> None
      | Some uid \<Rightarrow>
          if strict_eq uid id'
          then (case set_prop u ''firstName'' firstName of
                  None \<Rightarrow> None
                | Some u1 \<Rightarrow> set_prop u1 ''lastName'' lastName)
          else Some u)"

text \<open>\<^verbatim>\<open>u.id === id\<close>\<close>

definition has_id :: "jsval \<Rightarrow> jsval \<Rightarrow> bool option" where
  "has_id id' u =
     (case get_prop u ''id'' of
        None \<Rightarrow> None
      | Some uid \<Rightarrow> Some (strict_eq uid id'))"

text \<open>
  The write is \<^verbatim>\<open>fs.writeFile\<close> with a callback: the response is sent from the
  callback, after the write has settled. Reading \<^verbatim>\<open>user.email\<close> of a user that
  \<^verbatim>\<open>find\<close> did not find throws inside that callback.
\<close>

definition profile_update ::
  "write_outcome \<Rightarrow> request \<Rightarrow> fcontent \<Rightarrow> event list \<times> fcontent" where
  "profile_update wr req users_file =
     (let firstName = own_prop (body req) ''firstName'';
          lastName = own_prop (body req) ''lastName'';
          id' = req_id req
      in case users_file of
           Unreadable e \<Rightarrow>
             ([ReadOpened, ReadFailed,
               Responded 500
                 (MsgErr ''An error occurred. Please try again later.'' (IOError e))],
              users_file)
         | _ \<Rightarrow>
             (case JSON_parse users_file of
                Some (JArr loaded) \<Rightarrow>
                  (case js_map (update_user id' firstName lastName) loaded of
                     None \<Rightarrow> ([ReadOpened, ReadEnded, Uncaught], users_file)
                   | Some users \<Rightarrow>
                       (let text = JSON_stringify (JArr users)
                        in case wr of
                             WriteFails residue \<Rightarrow>
                               ([ReadOpened, ReadEnded, WriteIssued text, WriteSettled False,
                                 Responded 500
                                   (Msg ''An error occurred. Please try again later.'')],
                                settle wr text)
                           | WriteOk \<Rightarrow>
                               (case js_find (has_id id') users of
                                  None \<Rightarrow>
                                    ([ReadOpened, ReadEnded, WriteIssued text,
                                      WriteSettled True, Uncaught],
                                     settle wr text)
                                | Some user \<Rightarrow>
                                    (case get_prop user ''email'' of
                                       None \<Rightarrow>
                                         ([ReadOpened, ReadEnded, WriteIssued text,
                                           WriteSettled True, Uncaught],
                                          settle wr text)
                                     | Some email \<Rightarrow>
                                         ([ReadOpened, ReadEnded, WriteIssued text,
                                           WriteSettled True, Emitted email,
                                           Responded 200 (Msg ''Profile updated successfully.'')],
                                          settle wr text)))))
              | _ \<Rightarrow> ([ReadOpened, ReadEnded, Uncaught], users_file)))"

subsection \<open>GET /post (src/routes/get-post.ts)\<close>

text \<open>
  \<^verbatim>\<open>`${v}`\<close>: the text of a value inside a template literal. Numbers, arrays and
  objects are printed by the engine, the parameter \<open>to_string\<close> (\<open>None\<close> when the
  conversion throws).
\<close>

definition to_text :: "(jsval \<Rightarrow> string option) \<Rightarrow> jsval \<Rightarrow> string option" where
  "to_text to_string v =
     (case v of
        JUndefined \<Rightarrow> Some ''undefined''
      | JNull \<Rightarrow> Some ''null''
      | JBool b \<Rightarrow> Some (if b then ''true'' else ''false'')
      | JStr s \<Rightarrow> Some s
      | _ \<Rightarrow> to_string v)"

text \<open>\<^verbatim>\<open>v?.k\<close>: \<^verbatim>\<open>undefined\<close> when \<open>v\<close> is \<^verbatim>\<open>null\<close> or \<^verbatim>\<open>undefined\<close>.\<close>

definition opt_prop :: "jsval \<Rightarrow> string \<Rightarrow> jsval" where
  "opt_prop v k = (case get_prop v k of None \<Rightarrow> JUndefined | Some x \<Rightarrow> x)"

text \<open>\<^verbatim>\<open>post.userId === userId\<close>\<close>

definition owned_by :: "jsval \<Rightarrow> jsval \<Rightarrow> bool option" where
  "owned_by userId post =
     (case get_prop post ''userId'' of
        None \<Rightarrow> None
      | Some uid \<Rightarrow> Some (strict_eq uid userId))"

text \<open>The callback of \<^verbatim>\<open>.map\<close>, which builds one entry of the response.\<close>

definition post_response :: "(jsval \<Rightarrow> string option) \<Rightarrow> jsval \<Rightarrow> jsval \<Rightarrow> jsval option" where
  "post_response to_string user post =
     (case get_prop post ''title'' of
        None \<Rightarrow> None
      | Some title \<Rightarrow>
     (case get_prop post ''description'' of
        None \<Rightarrow> None
      | Some description \<Rightarrow>
     (case get_prop post ''date'' of
        None \<Rightarrow> None
      | Some date \<Rightarrow>
     (case to_text to_string (opt_prop user ''firstName'') of
        None \<Rightarrow> None
      | Some firstName \<Rightarrow>
     (case to_text to_string (opt_prop user ''lastName'') of
        None \<Rightarrow> None
      | Some lastName \<Rightarrow>
          Some (JObj [(''title'', title), (''description'', description), (''date'', date),
                      (''authorName'', JStr (firstName @ '' '' @ lastName))]))))))"

text \<open>
  \<^verbatim>\<open>readDataFromFile\<close> lives in \<^verbatim>\<open>utils/file-utils\<close>, which is not among the sources;
  what its two calls give is a parameter: the loaded array, or the error the promise
  rejects with. Every exception inside the \<^verbatim>\<open>try\<close> is answered with 500, and
  \<^verbatim>\<open>res.send\<close> writes the array as JSON.
\<close>

definition get_post ::
  "(jsval \<Rightarrow> string option) \<Rightarrow> request \<Rightarrow> string + jsval list \<Rightarrow> string + jsval list
     \<Rightarrow> event list" where
  "get_post to_string req posts_read users_read =
     (let userId = req_userId req
      in case posts_read of
           Inl e \<Rightarrow>
             [Responded 500 (MsgErr ''An error occurred. Please try again later.'' (IOError e))]
         | Inr posts \<Rightarrow>
        (case users_read of
           Inl e \<Rightarrow>
             [Responded 500 (MsgErr ''An error occurred. Please try again later.'' (IOError e))]
         | Inr users \<Rightarrow>
        (case js_find (has_id userId) users of
           None \<Rightarrow>
             [Responded 500 (MsgErr ''An error occurred. Please try again later.'' TypeError)]
         | Some user \<Rightarrow>
        (case js_filter (owned_by userId) posts of
           None \<Rightarrow>
             [Responded 500 (MsgErr ''An error occurred. Please try again later.'' TypeError)]
         | Some mine \<Rightarrow>
        (case js_map (post_response to_string user) mine of
           None \<Rightarrow>
             [Responded 500 (MsgErr ''An error occurred. Please try again later.'' TypeError)]
         | Some postResponse \<Rightarrow>
             [Responded 200 (Payload (json_of (JArr postResponse)))])))))"

section \<open>The record store of the specification\<close>

text \<open>
  Modelled from the spec: the store operations \<^verbatim>\<open>findOne\<close>, \<^verbatim>\<open>removeWhere\<close> and
  \<^verbatim>\<open>upsertMutate\<close> of section 4.1, in its words, to set beside the array methods
  above. The sources have no functions of these names: the handlers call \<^verbatim>\<open>find\<close>,
  \<^verbatim>\<open>filter\<close> and \<^verbatim>\<open>map\<close> on the loaded array in place.
  \<^verbatim>\<open>findOne\<close>: linear scan, the first match in collection order, or not-found.
  \<^verbatim>\<open>removeWhere\<close>: a new sequence excluding all records matching the predicate.
  \<^verbatim>\<open>upsertMutate\<close>: every matching record has the mutator applied, the others pass
  through unchanged.
\<close>

fun findOne :: "'r list \<Rightarrow> ('r \<Rightarrow> bool) \<Rightarrow> 'r option" where
  "findOne [] predicate = None"
| "findOne (r # records) predicate =
     (if predicate r then Some r else findOne records predicate)"

fun removeWhere :: "'r list \<Rightarrow> ('r \<Rightarrow> bool) \<Rightarrow> 'r list" where
  "removeWhere [] predicate = []"
| "removeWhere (r # records) predicate =
     (if predicate r then removeWhere records predicate
      else r # removeWhere records predicate)"

fun upsertMutate :: "'r list \<Rightarrow> ('r \<Rightarrow> bool) \<Rightarrow> ('r \<Rightarrow> 'r) \<Rightarrow> 'r list" where
  "upsertMutate [] predicate mutator = []"
| "upsertMutate (r # records) predicate mutator =
     (if predicate r then mutator r else r) # upsertMutate records predicate mutator"

section \<open>What the claims speak of\<close>

text \<open>
  The order the specification asks of a handler that persists (section 4.2, (e)): a
  response with a success status comes only after the write has settled. \<open>settled\<close>
  says whether a \<open>WriteSettled\<close> has been seen so far.
\<close>

fun success_after_settle :: "bool \<Rightarrow> event list \<Rightarrow> bool" where
  "success_after_settle settled [] = True"
| "success_after_settle settled (WriteSettled ok # es) = success_after_settle True es"
| "success_after_settle settled (Responded c b # es) =
     (if 200 \<le> c \<and> c < 300
      then (if settled then success_after_settle settled es else False)
      else success_after_settle settled es)"
| "success_after_settle settled (e # es) = success_after_settle settled es"

text \<open>A title or description that is missing, or a text of fewer than \<open>n\<close> characters.\<close>

definition missing_or_shorter :: "nat \<Rightarrow> jsval \<Rightarrow> bool" where
  "missing_or_shorter n v =
     (case v of
        JUndefined \<Rightarrow> True
      | JNull \<Rightarrow> True
      | JStr s \<Rightarrow> length s < n
      | _ \<Rightarrow> False)"

text \<open>A value whose properties can be read: anything but \<^verbatim>\<open>null\<close> and \<^verbatim>\<open>undefined\<close>.\<close>

definition derefable :: "jsval \<Rightarrow> bool" where
  "derefable v = (case v of JUndefined \<Rightarrow> False | JNull \<Rightarrow> False | _ \<Rightarrow> True)"

text \<open>
  What \<^verbatim>\<open>JSON.parse\<close> can return: a value with no \<^verbatim>\<open>undefined\<close> anywhere inside.
\<close>

fun is_json :: "jsval \<Rightarrow> bool"
and are_json :: "jsval list \<Rightarrow> bool"
and props_json :: "(string \<times> jsval) list \<Rightarrow> bool" where
  "is_json (JArr xs) = are_json xs"
| "is_json (JObj kvs) = props_json kvs"
| "is_json JUndefined = False"
| "is_json JNull = True"
| "is_json (JBool b) = True"
| "is_json (JNum n) = True"
| "is_json (JStr s) = True"
| "are_json [] = True"
| "are_json (x # xs) = (if is_json x then are_json xs else False)"
| "props_json [] = True"
| "props_json (kv # kvs) = (if is_json (snd kv) then props_json kvs else False)"

text \<open>
  A record whose \<^verbatim>\<open>id\<close> equals the id of the route and whose \<^verbatim>\<open>userId\<close> equals the
  caller's id (equality as \<^verbatim>\<open>===\<close>).
\<close>

definition matches_post :: "jsval \<Rightarrow> jsval \<Rightarrow> jsval \<Rightarrow> bool" where
  "matches_post id' userId post =
     (if strict_eq (opt_prop post ''id'') id'
      then strict_eq (opt_prop post ''userId'') userId
      else False)"

text \<open>
  A user record with \<^verbatim>\<open>id\<close>, \<^verbatim>\<open>email\<close>, \<^verbatim>\<open>password\<close>, \<^verbatim>\<open>firstName\<close> and
  \<^verbatim>\<open>lastName\<close> all there. In a parsed file a property that is there never reads as
  \<^verbatim>\<open>undefined\<close>, so this is the presence of the five keys.
\<close>

definition has_all_fields :: "jsval \<Rightarrow> bool" where
  "has_all_fields r =
     (case r of
        JObj kvs \<Rightarrow>
          list_all (\<lambda>k. own_prop kvs k \<noteq> JUndefined)
            [''id'', ''email'', ''password'', ''firstName'', ''lastName'']
      | _ \<Rightarrow> False)"

section \<open>Lemmas on the model\<close>

subsection \<open>Callbacks that do not throw\<close>

lemmas handler_defs = JSON_parse_def JSON_stringify_def settle_def stream_settles_def Let_def

lemma js_find_total:
  "list_all (\<lambda>x. p x = Some (q x)) xs \<Longrightarrow>
   js_find p xs = Some (case List.find q xs of None \<Rightarrow> JUndefined | Some x \<Rightarrow> x)"
  by (induction xs) auto

lemma js_filter_total:
  "list_all (\<lambda>x. p x = Some (q x)) xs \<Longrightarrow> js_filter p xs = Some (filter q xs)"
  by (induction xs) auto

lemma js_map_total:
  "list_all (\<lambda>x. f x = Some (g x)) xs \<Longrightarrow> js_map f xs = Some (map g xs)"
  by (induction xs) auto

lemma get_prop_derefable: "derefable v \<Longrightarrow> get_prop v k = Some (opt_prop v k)"
  by (cases v) (simp_all add: derefable_def opt_prop_def)

lemma is_callers_post_total:
  "derefable p \<Longrightarrow> is_callers_post id' userId p = Some (matches_post id' userId p)"
  by (simp add: is_callers_post_def matches_post_def get_prop_derefable)

lemma is_kept_total:
  "derefable p \<Longrightarrow>
   is_kept id' userId p =
     Some (\<not> strict_eq (opt_prop p ''id'') id' \<and> strict_eq (opt_prop p ''userId'') userId)"
  by (simp add: is_kept_def get_prop_derefable)

lemma matching_post_truthy:
  "truthy id' \<Longrightarrow> matches_post id' userId p \<Longrightarrow> truthy p"
  by (cases p) (auto simp: matches_post_def opt_prop_def split: if_splits)

lemma find_None_list_ex: "(List.find q xs = None) = (\<not> list_ex q xs)"
  by (induction xs) auto

lemma find_Some_holds: "List.find q xs = Some x \<Longrightarrow> q x"
  by (induction xs) (auto split: if_splits)

lemma missing_or_short_text:
  "missing_or_shorter n v \<Longrightarrow> missing_or_short to_number v (int n) = Some True"
  by (cases v) (simp_all add: missing_or_shorter_def missing_or_short_def js_lt_def)

lemma js_find_no_match:
  "list_all (\<lambda>u. p u = Some False) us \<Longrightarrow> js_find p us = Some JUndefined"
  by (induction us) auto

lemma js_filter_holds:
  "js_filter p xs = Some ys \<Longrightarrow> list_all (\<lambda>x. p x = Some True) ys"
  by (induction xs arbitrary: ys) (auto split: option.splits if_splits)

lemma js_filter_json: "js_filter p xs = Some ys \<Longrightarrow> are_json xs \<Longrightarrow> are_json ys"
  by (induction xs arbitrary: ys) (auto split: option.splits if_splits)

lemma has_id_total: "derefable u \<Longrightarrow> has_id id' u = Some (strict_eq (opt_prop u ''id'') id')"
  by (simp add: has_id_def get_prop_derefable)

lemma has_id_derefable: "has_id id' u = Some b \<Longrightarrow> derefable u"
  by (cases u) (simp_all add: has_id_def derefable_def)

lemma owned_by_total:
  "derefable p \<Longrightarrow> owned_by userId p = Some (strict_eq (opt_prop p ''userId'') userId)"
  by (simp add: owned_by_def get_prop_derefable)

lemma opt_prop_undefined: "opt_prop JUndefined k = JUndefined"
  by (simp add: opt_prop_def)

lemma opt_prop_object: "opt_prop (JObj kvs) k = own_prop kvs k"
  by (simp add: opt_prop_def)

subsection \<open>Writing parsed values back\<close>

lemma json_of_identity:
  "is_json v \<Longrightarrow> json_of v = v"
  "are_json xs \<Longrightarrow> json_of_elems xs = xs"
  "props_json kvs \<Longrightarrow> json_of_props kvs = kvs"
  by (induction v and xs and kvs rule: json_of_json_of_elems_json_of_props.induct)
     (auto split: if_splits)

lemma json_of_elems_entries:
  "json_of_elems (map (\<lambda>p. JObj (f p)) ps) = map (\<lambda>p. JObj (json_of_props (f p))) ps"
  by (induction ps) simp_all

lemma json_of_entry:
  "\<exists>kvs. json_of (JObj [(''title'', a), (''description'', b), (''date'', c), (''authorName'', JStr s)])
           = JObj kvs \<and> own_prop kvs ''authorName'' = JStr s"
  by (cases "a = JUndefined"; cases "b = JUndefined"; cases "c = JUndefined")
     (simp_all add: own_prop_def)

subsection \<open>The callbacks of the handlers\<close>

lemma kept_is_not_callers:
  "is_kept id' userId r = Some True \<Longrightarrow> is_callers_post id' userId r = Some False"
  by (auto simp: is_kept_def is_callers_post_def split: option.splits if_splits)

lemma js_filter_kept:
  "js_filter (is_kept id' userId) posts = Some kept \<Longrightarrow>
   list_all (\<lambda>r. is_callers_post id' userId r = Some False) kept"
  using js_filter_holds [of "is_kept id' userId" posts kept]
  by (simp add: list_all_iff kept_is_not_callers)

lemma delete_post_written:
  assumes "WriteIssued text \<in> set (fst (delete_post wr req (Json (JArr posts))))"
  shows "\<exists>kept. js_filter (is_kept (params_id req) (req_id req)) posts = Some kept
            \<and> text = Json (json_of (JArr kept))"
  using assms
  by (cases wr) (auto simp: delete_post_def handler_defs split: if_splits option.splits)

lemma update_user_no_match: "has_id id' u = Some False \<Longrightarrow> update_user id' f l u = Some u"
  by (auto simp: has_id_def update_user_def split: option.splits)

lemma js_map_no_match:
  "list_all (\<lambda>u. has_id id' u = Some False) us \<Longrightarrow>
   js_map (update_user id' f l) us = Some us"
  by (induction us) (auto simp: update_user_no_match)

lemma post_response_no_user:
  "derefable p \<Longrightarrow>
   post_response to_string JUndefined p =
     Some (JObj [(''title'', opt_prop p ''title''), (''description'', opt_prop p ''description''),
                 (''date'', opt_prop p ''date''), (''authorName'', JStr ''undefined undefined'')])"
  by (simp add: post_response_def get_prop_derefable to_text_def opt_prop_undefined)

lemma findOne_removeWhere: "findOne (removeWhere rs p) p = None"
  by (induction rs) auto

lemma upsertMutate_no_match: "list_all (\<lambda>r. \<not> p r) rs \<Longrightarrow> upsertMutate rs p m = rs"
  by (induction rs) auto

lemma no_match_findOne:
  "list_all (\<lambda>r. q r = Some False) rs \<Longrightarrow> findOne rs (\<lambda>r. q r = Some True) = None"
  by (induction rs) auto

subsection \<open>The store operations and the array methods\<close>

lemma removeWhere_filter: "removeWhere rs p = filter (\<lambda>r. \<not> p r) rs"
  by (induction rs) auto

lemma findOne_find: "findOne rs p = List.find p rs"
  by (induction rs) auto

lemma upsertMutate_map: "upsertMutate rs p m = map (\<lambda>r. if p r then m r else r) rs"
  by (induction rs) auto

subsection \<open>The route of DELETE and its handler\<close>


text \<open>
  What the handler would do if a request reached it: it would drop the posts of every
  other user with the deleted one, and it would answer 'Post not found.' exactly when
  no record has the id and the caller's \<^verbatim>\<open>userId\<close>.
\<close>

lemma delete_post_handler_drops_other_users_posts:
  "delete_post WriteOk
     \<lparr>params_id = JStr ''1'', req_id = JStr ''u1'', req_userId = JUndefined, body = []\<rparr>
     (Json (JArr [JObj [(''id'', JStr ''1''), (''userId'', JStr ''u1'')],
                  JObj [(''id'', JStr ''2''), (''userId'', JStr ''u2'')]]))
   = ([ReadOpened, ReadEnded, WriteIssued (Json (JArr [])),
       Responded 201 (Msg ''Post deleted successfully.''), WriteSettled True],
      Json (JArr []))"
  by (simp add: delete_post_def is_callers_post_def is_kept_def own_prop_def handler_defs)

lemma delete_post_handler_not_found_iff:
  assumes "truthy (params_id req)" and "truthy (req_id req)"
    and "list_all derefable posts"
  shows "(Responded 404 (Msg ''Post not found.'')
            \<in> set (fst (delete_post wr req (Json (JArr posts)))))
         = (\<not> list_ex (matches_post (params_id req) (req_id req)) posts)"
proof -
  let ?i = "params_id req" and ?u = "req_id req"
  have f: "js_find (is_callers_post ?i ?u) posts
           = Some (case List.find (matches_post ?i ?u) posts of
                     None \<Rightarrow> JUndefined | Some x \<Rightarrow> x)"
    using assms(3) by (intro js_find_total) (simp add: list_all_iff is_callers_post_total)
  have k: "js_filter (is_kept ?i ?u) posts
           = Some (filter (\<lambda>p. \<not> strict_eq (opt_prop p ''id'') ?i
                               \<and> strict_eq (opt_prop p ''userId'') ?u) posts)"
    using assms(3) by (intro js_filter_total) (simp add: list_all_iff is_kept_total)
  show ?thesis
  proof (cases "List.find (matches_post ?i ?u) posts")
    case None
    then have "\<not> list_ex (matches_post ?i ?u) posts" by (simp add: find_None_list_ex)
    then show ?thesis using None assms(1,2) f
      by (simp add: delete_post_def handler_defs)
  next
    case (Some p)
    then have "matches_post ?i ?u p" by (rule find_Some_holds)
    then have t: "truthy p" using assms(1) by (simp add: matching_post_truthy)
    from Some have "list_ex (matches_post ?i ?u) posts"
      using find_None_list_ex [of "matches_post ?i ?u" posts] by simp
    then show ?thesis using Some assms(1,2) f k t
      by (simp add: delete_post_def handler_defs split: write_outcome.split)
  qed
qed

section \<open>The claims\<close>

subsection \<open>C1: what DELETE leaves in the posts file\<close>



subsection \<open>C2: the response and the end of the write\<close>

lemma profile_update_order:
  "success_after_settle False (fst (profile_update wr req users_file))"
  by (simp add: profile_update_def Let_def
        split: fcontent.split option.split jsval.split write_outcome.split)

text \<open>
  C2. The claim: a handler that persists sends its success response only after the
  write has completed or failed. \<^verbatim>\<open>PUT /profile-update\<close> does (the lemma above, for
  every input). \<^verbatim>\<open>POST /post\<close> and \<^verbatim>\<open>DELETE post/:id\<close> call \<^verbatim>\<open>res.status(201).send\<close>
  in the callback that issues the write, so the 201 precedes the end of the write.
\<close>

theorem stream_handlers_respond_before_settle:
  "fst (create_post (\<lambda>v. None) ''uuid'' ''now'' WriteOk
          \<lparr>params_id = JUndefined, req_id = JStr ''u1'', req_userId = JUndefined,
             body = [(''title'', JStr ''Hello''),
                     (''description'', JStr ''a valid description'')]\<rparr>
          (Json (JArr [])))
   = [ReadOpened, ReadEnded,
      WriteIssued (Json (JArr [JObj [(''id'', JStr ''uuid''), (''title'', JStr ''Hello''),
         (''description'', JStr ''a valid description''), (''date'', JStr ''now''),
         (''userId'', JStr ''u1'')]])),
      Responded 201 (Msg ''Post created successfully.''), WriteSettled True]
   \<and> \<not> success_after_settle False
         (fst (create_post (\<lambda>v. None) ''uuid'' ''now'' WriteOk
            \<lparr>params_id = JUndefined, req_id = JStr ''u1'', req_userId = JUndefined,
               body = [(''title'', JStr ''Hello''),
                       (''description'', JStr ''a valid description'')]\<rparr>
            (Json (JArr []))))
   \<and> fst (delete_post WriteOk
          \<lparr>params_id = JStr ''1'', req_id = JStr ''u1'', req_userId = JUndefined, body = []\<rparr>
          (Json (JArr [JObj [(''id'', JStr ''1''), (''userId'', JStr ''u1'')]])))
   = [ReadOpened, ReadEnded, WriteIssued (Json (JArr [])),
      Responded 201 (Msg ''Post deleted successfully.''), WriteSettled True]
   \<and> \<not> success_after_settle False
         (fst (delete_post WriteOk
            \<lparr>params_id = JStr ''1'', req_id = JStr ''u1'', req_userId = JUndefined, body = []\<rparr>
            (Json (JArr [JObj [(''id'', JStr ''1''), (''userId'', JStr ''u1'')]]))))"
  by (simp add: create_post_def missing_or_short_def js_lt_def delete_post_def
        is_callers_post_def is_kept_def own_prop_def handler_defs)

subsection \<open>C3: validation before storage\<close>

text \<open>
  The claim of C3 (400 whenever the title or the description is missing or too short)
  fails where the check of the title throws: \<^verbatim>\<open>title.length < 3\<close> converts the
  length to a number, and a title \<^verbatim>\<open>{"length": {"valueOf": 1, "toString": 1}}\<close> has a
  length that cannot be converted. The description is too short, but the handler throws
  on line 14, before it looks at the description, and sends no 400.
\<close>

theorem create_post_title_check_throws:
  "missing_or_shorter 10 (JStr ''short'')
   \<and> create_post (\<lambda>v. None) ''uuid'' ''now'' WriteOk
        \<lparr>params_id = JUndefined, req_id = JStr ''u1'', req_userId = JUndefined,
           body = [(''title'', JObj [(''length'', JObj [(''valueOf'', JNum 1),
                                                       (''toString'', JNum 1)])]),
                   (''description'', JStr ''short'')]\<rparr>
        (Json (JArr []))
     = ([Thrown], Json (JArr []))"
  by (simp add: missing_or_shorter_def create_post_def missing_or_short_def js_lt_def
        own_prop_def Let_def)

text \<open>
  C3, as amended. When the title is missing or shorter than 3 characters, or the
  description is missing or shorter than 10 characters, POST /post reads and writes
  nothing and the posts file is what it was: the run is a single 400 for the title
  when the check of the title finds it missing or short, a single 400 for the
  description when the check of the title passes, and the exception alone when the
  check of the title throws.
\<close>

theorem create_post_rejects:
  assumes "missing_or_shorter 3 (own_prop (body req) ''title'')
           \<or> missing_or_shorter 10 (own_prop (body req) ''description'')"
  shows "create_post to_number uuid now wr req posts_file =
           (case missing_or_short to_number (own_prop (body req) ''title'') 3 of
              None \<Rightarrow> ([Thrown], posts_file)
            | Some True \<Rightarrow>
                ([Responded 400
                    (Msg ''Title is required and should be at least 3 characters long.'')],
                 posts_file)
            | Some False \<Rightarrow>
                ([Responded 400
                    (Msg ''Description is required and should be at least 10 characters long.'')],
                 posts_file))"
proof (cases "missing_or_short to_number (own_prop (body req) ''title'') 3")
  case None
  then show ?thesis by (simp add: create_post_def Let_def)
next
  case (Some short)
  show ?thesis
  proof (cases short)
    case True
    with Some show ?thesis by (simp add: create_post_def Let_def)
  next
    case False
    with Some missing_or_short_text [of 3 "own_prop (body req) ''title''" to_number]
    have "\<not> missing_or_shorter 3 (own_prop (body req) ''title'')" by auto
    with assms have "missing_or_shorter 10 (own_prop (body req) ''description'')" by simp
    then have d: "missing_or_short to_number (own_prop (body req) ''description'') 10 = Some True"
      using missing_or_short_text [of 10 "own_prop (body req) ''description''" to_number]
      by simp
    show ?thesis using Some False d by (simp add: create_post_def Let_def)
  qed
qed

theorem create_post_rejects_witness:
  "missing_or_shorter 10 (JStr ''short'') \<and>
   create_post (\<lambda>v. None) ''uuid'' ''now'' WriteOk
     \<lparr>params_id = JUndefined, req_id = JStr ''u1'', req_userId = JUndefined,
        body = [(''title'', JStr ''Hello''), (''description'', JStr ''short'')]\<rparr>
     (Json (JArr []))
   = ([Responded 400
         (Msg ''Description is required and should be at least 10 characters long.'')],
      Json (JArr []))"
proof -
  have h: "missing_or_shorter 10 (JStr ''short'')" by (simp add: missing_or_shorter_def)
  show ?thesis
    using h create_post_rejects
      [of "\<lparr>params_id = JUndefined, req_id = JStr ''u1'', req_userId = JUndefined,
             body = [(''title'', JStr ''Hello''), (''description'', JStr ''short'')]\<rparr>"
          "\<lambda>v. None" "''uuid''" "''now''" WriteOk "Json (JArr [])"]
    by (simp add: own_prop_def missing_or_short_def js_lt_def)
qed

subsection \<open>C4: a write that fails\<close>

text \<open>
  The claim of C4 (a failed write is answered with 500 and the file keeps its previous
  content) fails twice. The PUT route answers 500, but the file holds what the failed
  write left (here a truncated text), not the collection it held. The POST route has
  answered 201 by the time its write fails, and the failure then ends the process.
\<close>

theorem failed_write_not_contained:
  "profile_update (WriteFails Malformed)
     \<lparr>params_id = JUndefined, req_id = JStr ''u1'', req_userId = JUndefined,
        body = [(''firstName'', JStr ''Ann''), (''lastName'', JStr ''Lee'')]\<rparr>
     (Json (JArr [JObj [(''id'', JStr ''u1''), (''email'', JStr ''a@x.com'')]]))
   = ([ReadOpened, ReadEnded,
       WriteIssued (Json (JArr [JObj [(''id'', JStr ''u1''), (''email'', JStr ''a@x.com''),
                                      (''firstName'', JStr ''Ann''),
                                      (''lastName'', JStr ''Lee'')]])),
       WriteSettled False,
       Responded 500 (Msg ''An error occurred. Please try again later.'')],
      Malformed)
   \<and> Malformed \<noteq> Json (JArr [JObj [(''id'', JStr ''u1''), (''email'', JStr ''a@x.com'')]])
   \<and> create_post (\<lambda>v. None) ''uuid'' ''now'' (WriteFails Malformed)
         \<lparr>params_id = JUndefined, req_id = JStr ''u1'', req_userId = JUndefined,
            body = [(''title'', JStr ''Hello''),
                    (''description'', JStr ''a valid description'')]\<rparr>
         (Json (JArr []))
   = ([ReadOpened, ReadEnded,
       WriteIssued (Json (JArr [JObj [(''id'', JStr ''uuid''), (''title'', JStr ''Hello''),
          (''description'', JStr ''a valid description''), (''date'', JStr ''now''),
          (''userId'', JStr ''u1'')]])),
       Responded 201 (Msg ''Post created successfully.''), WriteSettled False, Uncaught],
      Malformed)"
  by (simp add: profile_update_def update_user_def create_post_def missing_or_short_def
        js_lt_def own_prop_def handler_defs)

text \<open>
  C4, as amended. When the write of PUT /profile-update fails, the handler answers 500
  and nothing else, after the write has settled; the file then holds whatever the
  failed write left at the path. (\<open>users\<close> is the loaded collection after the update
  of the caller's record.)
\<close>

theorem profile_update_write_failure:
  assumes "js_map (update_user (req_id req) (own_prop (body req) ''firstName'')
             (own_prop (body req) ''lastName'')) loaded = Some users"
  shows "profile_update (WriteFails residue) req (Json (JArr loaded)) =
           ([ReadOpened, ReadEnded, WriteIssued (JSON_stringify (JArr users)),
             WriteSettled False,
             Responded 500 (Msg ''An error occurred. Please try again later.'')],
            residue)"
  using assms by (simp add: profile_update_def JSON_parse_def settle_def Let_def)

theorem profile_update_write_failure_witness:
  "js_map (update_user (JStr ''u1'') (JStr ''Ann'') (JStr ''Lee''))
     [JObj [(''id'', JStr ''u1''), (''email'', JStr ''a@x.com'')]]
   = Some [JObj [(''id'', JStr ''u1''), (''email'', JStr ''a@x.com''),
                 (''firstName'', JStr ''Ann''), (''lastName'', JStr ''Lee'')]]
   \<and> profile_update (WriteFails Malformed)
         \<lparr>params_id = JUndefined, req_id = JStr ''u1'', req_userId = JUndefined,
            body = [(''firstName'', JStr ''Ann''), (''lastName'', JStr ''Lee'')]\<rparr>
         (Json (JArr [JObj [(''id'', JStr ''u1''), (''email'', JStr ''a@x.com'')]]))
   = ([ReadOpened, ReadEnded,
       WriteIssued (Json (JArr [JObj [(''id'', JStr ''u1''), (''email'', JStr ''a@x.com''),
                                      (''firstName'', JStr ''Ann''),
                                      (''lastName'', JStr ''Lee'')]])),
       WriteSettled False,
       Responded 500 (Msg ''An error occurred. Please try again later.'')],
      Malformed)"
proof -
  have h: "js_map (update_user (JStr ''u1'') (JStr ''Ann'') (JStr ''Lee''))
             [JObj [(''id'', JStr ''u1''), (''email'', JStr ''a@x.com'')]]
           = Some [JObj [(''id'', JStr ''u1''), (''email'', JStr ''a@x.com''),
                         (''firstName'', JStr ''Ann''), (''lastName'', JStr ''Lee'')]]"
    by (simp add: update_user_def own_prop_def)
  show ?thesis
    using h profile_update_write_failure
      [of "\<lparr>params_id = JUndefined, req_id = JStr ''u1'', req_userId = JUndefined,
             body = [(''firstName'', JStr ''Ann''), (''lastName'', JStr ''Lee'')]\<rparr>"
          "[JObj [(''id'', JStr ''u1''), (''email'', JStr ''a@x.com'')]]"
          "[JObj [(''id'', JStr ''u1''), (''email'', JStr ''a@x.com''),
                  (''firstName'', JStr ''Ann''), (''lastName'', JStr ''Lee'')]]"
          Malformed]
    by (simp add: own_prop_def JSON_stringify_def)
qed

subsection \<open>C5: nothing that was to be removed is found afterwards\<close>

text \<open>
  C5. For every sequence and predicate, \<^verbatim>\<open>findOne(removeWhere(rs, p), p)\<close> is
  not-found. So it is with the array methods of the sources, of which the two store
  operations are the words: \<^verbatim>\<open>filter\<close> with the negated predicate computes
  \<^verbatim>\<open>removeWhere\<close>, and \<^verbatim>\<open>find\<close> on the result gives \<^verbatim>\<open>undefined\<close>. And in the
  handler: whatever DELETE writes (from a parsed posts file) holds no record with the
  id of the route and the caller's \<^verbatim>\<open>userId\<close>; \<^verbatim>\<open>findOne\<close> with that predicate
  finds nothing in it.
\<close>

theorem removed_records_not_found:
  "findOne (removeWhere rs p) p = None
   \<and> js_filter (\<lambda>r. Some (\<not> q r)) xs = Some (removeWhere xs q)
   \<and> js_find (\<lambda>r. Some (q r)) (removeWhere xs q) = Some JUndefined
   \<and> (are_json posts \<longrightarrow>
        WriteIssued (Json (JArr saved)) \<in> set (fst (delete_post wr req (Json (JArr posts)))) \<longrightarrow>
        list_all (\<lambda>r. is_callers_post (params_id req) (req_id req) r = Some False) saved
        \<and> findOne saved (\<lambda>r. is_callers_post (params_id req) (req_id req) r = Some True) = None)"
proof (intro conjI impI)
  show "findOne (removeWhere rs p) p = None" by (rule findOne_removeWhere)
next
  have "js_filter (\<lambda>r. Some (\<not> q r)) xs = Some (filter (\<lambda>r. \<not> q r) xs)"
    by (intro js_filter_total) (simp add: list_all_iff)
  then show "js_filter (\<lambda>r. Some (\<not> q r)) xs = Some (removeWhere xs q)"
    by (simp add: removeWhere_filter)
next
  have "js_find (\<lambda>r. Some (q r)) (removeWhere xs q)
        = Some (case List.find q (removeWhere xs q) of None \<Rightarrow> JUndefined | Some x \<Rightarrow> x)"
    by (intro js_find_total) (simp add: list_all_iff)
  moreover have "List.find q (removeWhere xs q) = None"
    using findOne_removeWhere [of xs q] by (simp add: findOne_find)
  ultimately show "js_find (\<lambda>r. Some (q r)) (removeWhere xs q) = Some JUndefined"
    by simp
next
  assume j: "are_json posts"
    and w: "WriteIssued (Json (JArr saved)) \<in> set (fst (delete_post wr req (Json (JArr posts))))"
  from delete_post_written [OF w] obtain kept
    where k: "js_filter (is_kept (params_id req) (req_id req)) posts = Some kept"
      and s: "Json (JArr saved) = Json (json_of (JArr kept))" by blast
  from k j have "are_json kept" by (rule js_filter_json)
  with s have "saved = kept" by (simp add: json_of_identity)
  with k show a: "list_all (\<lambda>r. is_callers_post (params_id req) (req_id req) r = Some False) saved"
    by (simp add: js_filter_kept)
  then show "findOne saved (\<lambda>r. is_callers_post (params_id req) (req_id req) r = Some True) = None"
    by (rule no_match_findOne)
qed

theorem removed_records_not_found_witness:
  "findOne (removeWhere [JNum 1, JNum 2] (\<lambda>r. r = JNum 2)) (\<lambda>r. r = JNum 2) = None
   \<and> js_filter (\<lambda>r. Some (\<not> r = JNum 2)) [JNum 1, JNum 2] = Some [JNum 1]
   \<and> js_find (\<lambda>r. Some (r = JNum 2)) [JNum 1] = Some JUndefined
   \<and> are_json [JObj [(''id'', JStr ''1''), (''userId'', JStr ''u1'')],
               JObj [(''id'', JStr ''3''), (''userId'', JStr ''u1'')]]
   \<and> WriteIssued (Json (JArr [JObj [(''id'', JStr ''3''), (''userId'', JStr ''u1'')]]))
       \<in> set (fst (delete_post WriteOk
            \<lparr>params_id = JStr ''1'', req_id = JStr ''u1'', req_userId = JUndefined, body = []\<rparr>
            (Json (JArr [JObj [(''id'', JStr ''1''), (''userId'', JStr ''u1'')],
                         JObj [(''id'', JStr ''3''), (''userId'', JStr ''u1'')]]))))
   \<and> list_all (\<lambda>r. is_callers_post (JStr ''1'') (JStr ''u1'') r = Some False)
        [JObj [(''id'', JStr ''3''), (''userId'', JStr ''u1'')]]
   \<and> findOne [JObj [(''id'', JStr ''3''), (''userId'', JStr ''u1'')]]
        (\<lambda>r. is_callers_post (JStr ''1'') (JStr ''u1'') r = Some True) = None"
proof -
  have j: "are_json [JObj [(''id'', JStr ''1''), (''userId'', JStr ''u1'')],
                     JObj [(''id'', JStr ''3''), (''userId'', JStr ''u1'')]]"
    by simp
  have w: "WriteIssued (Json (JArr [JObj [(''id'', JStr ''3''), (''userId'', JStr ''u1'')]]))
       \<in> set (fst (delete_post WriteOk
            \<lparr>params_id = JStr ''1'', req_id = JStr ''u1'', req_userId = JUndefined, body = []\<rparr>
            (Json (JArr [JObj [(''id'', JStr ''1''), (''userId'', JStr ''u1'')],
                         JObj [(''id'', JStr ''3''), (''userId'', JStr ''u1'')]]))))"
    by (simp add: delete_post_def is_callers_post_def is_kept_def own_prop_def handler_defs)
  show ?thesis
    using j w removed_records_not_found
      [of "[JNum 1, JNum 2]" "\<lambda>r. r = JNum 2" "\<lambda>r. r = JNum 2" "[JNum 1, JNum 2]"
          "[JObj [(''id'', JStr ''1''), (''userId'', JStr ''u1'')],
            JObj [(''id'', JStr ''3''), (''userId'', JStr ''u1'')]]"
          "[JObj [(''id'', JStr ''3''), (''userId'', JStr ''u1'')]]"
          WriteOk
          "\<lparr>params_id = JStr ''1'', req_id = JStr ''u1'', req_userId = JUndefined, body = []\<rparr>"]
    by simp
qed

subsection \<open>C6: an update that matches no record\<close>

text \<open>
  C6. \<^verbatim>\<open>upsertMutate\<close> with a predicate that matches no record returns the sequence it
  was given; \<^verbatim>\<open>upsertMutate\<close> is what \<^verbatim>\<open>map\<close> computes with a callback that mutates
  the matching records and returns every record. And in the handler: when no record of
  the parsed users file has the caller's id, what PUT /profile-update writes is the
  collection it loaded, and after a completed write the file holds that collection.
\<close>

theorem unmatched_update_changes_nothing:
  "(list_all (\<lambda>r. \<not> p r) rs \<longrightarrow> upsertMutate rs p m = rs)
   \<and> js_map (\<lambda>r. Some (if q r then g r else r)) xs = Some (upsertMutate xs q g)
   \<and> (are_json loaded \<longrightarrow> list_all (\<lambda>u. has_id (req_id req) u = Some False) loaded \<longrightarrow>
        WriteIssued (Json (JArr loaded)) \<in> set (fst (profile_update wr req (Json (JArr loaded))))
        \<and> snd (profile_update WriteOk req (Json (JArr loaded))) = Json (JArr loaded))"
proof (intro conjI impI)
  show "list_all (\<lambda>r. \<not> p r) rs \<Longrightarrow> upsertMutate rs p m = rs"
    by (rule upsertMutate_no_match)
next
  have "js_map (\<lambda>r. Some (if q r then g r else r)) xs
        = Some (map (\<lambda>r. if q r then g r else r) xs)"
    by (intro js_map_total) (simp add: list_all_iff)
  then show "js_map (\<lambda>r. Some (if q r then g r else r)) xs = Some (upsertMutate xs q g)"
    by (simp add: upsertMutate_map)
next
  assume j: "are_json loaded"
    and n: "list_all (\<lambda>u. has_id (req_id req) u = Some False) loaded"
  have m: "js_map (update_user (req_id req) (own_prop (body req) ''firstName'')
              (own_prop (body req) ''lastName'')) loaded = Some loaded"
    using n by (rule js_map_no_match)
  have t: "JSON_stringify (JArr loaded) = Json (JArr loaded)"
    using j by (simp add: JSON_stringify_def json_of_identity)
  show "WriteIssued (Json (JArr loaded)) \<in> set (fst (profile_update wr req (Json (JArr loaded))))"
    using m t
    by (simp add: profile_update_def JSON_parse_def Let_def
          split: write_outcome.split option.split)
  show "snd (profile_update WriteOk req (Json (JArr loaded))) = Json (JArr loaded)"
    using m t
    by (simp add: profile_update_def JSON_parse_def Let_def settle_def
          split: option.split)
qed

theorem unmatched_update_changes_nothing_witness:
  "list_all (\<lambda>r. \<not> r = JNum 7) [JNum 1, JNum 2]
   \<and> upsertMutate [JNum 1, JNum 2] (\<lambda>r. r = JNum 7) (\<lambda>r. JNull) = [JNum 1, JNum 2]
   \<and> js_map (\<lambda>r. Some (if r = JNum 1 then JNull else r)) [JNum 1, JNum 2]
     = Some [JNull, JNum 2]
   \<and> are_json [JObj [(''id'', JStr ''u1''), (''email'', JStr ''a@x.com'')]]
   \<and> list_all (\<lambda>u. has_id (JStr ''u9'') u = Some False)
        [JObj [(''id'', JStr ''u1''), (''email'', JStr ''a@x.com'')]]
   \<and> WriteIssued (Json (JArr [JObj [(''id'', JStr ''u1''), (''email'', JStr ''a@x.com'')]]))
       \<in> set (fst (profile_update WriteOk
            \<lparr>params_id = JUndefined, req_id = JStr ''u9'', req_userId = JUndefined, body = []\<rparr>
            (Json (JArr [JObj [(''id'', JStr ''u1''), (''email'', JStr ''a@x.com'')]]))))
   \<and> snd (profile_update WriteOk
            \<lparr>params_id = JUndefined, req_id = JStr ''u9'', req_userId = JUndefined, body = []\<rparr>
            (Json (JArr [JObj [(''id'', JStr ''u1''), (''email'', JStr ''a@x.com'')]])))
     = Json (JArr [JObj [(''id'', JStr ''u1''), (''email'', JStr ''a@x.com'')]])"
proof -
  have a: "list_all (\<lambda>r. \<not> r = JNum 7) [JNum 1, JNum 2]" by simp
  have j: "are_json [JObj [(''id'', JStr ''u1''), (''email'', JStr ''a@x.com'')]]" by simp
  have n: "list_all (\<lambda>u. has_id (JStr ''u9'') u = Some False)
             [JObj [(''id'', JStr ''u1''), (''email'', JStr ''a@x.com'')]]"
    by (simp add: has_id_def own_prop_def)
  show ?thesis
    using a j n unmatched_update_changes_nothing
      [of "\<lambda>r. r = JNum 7" "[JNum 1, JNum 2]" "\<lambda>r. JNull"
          "\<lambda>r. r = JNum 1" "\<lambda>r. JNull" "[JNum 1, JNum 2]"
          "[JObj [(''id'', JStr ''u1''), (''email'', JStr ''a@x.com'')]]"
          "\<lparr>params_id = JUndefined, req_id = JStr ''u9'', req_userId = JUndefined, body = []\<rparr>"
          WriteOk]
    by simp
qed

subsection \<open>C7: when DELETE answers 404\<close>

text \<open>
  C7. The claim: DELETE answers 404 'Post not found.' exactly when no record has both
  the id of the route and the caller's \<^verbatim>\<open>userId\<close>. The route \<^verbatim>\<open>'post/:id'\<close> matches no
  request, so the handler that holds this answer never runs. User \<open>u1\<close> asks to delete
  post \<open>1\<close>, which is there and is theirs: the request is not routed (and ends in the
  404 of Express). The same request on an empty collection, where no record matches:
  'Post not found.' is not sent.
\<close>

theorem delete_route_never_reaches_handler:
  "list_ex (matches_post (JStr ''1'') (JStr ''u1''))
     [JObj [(''id'', JStr ''1''), (''userId'', JStr ''u1'')]]
   \<and> delete_route WriteOk ''/post/1''
        \<lparr>params_id = JStr ''1'', req_id = JStr ''u1'', req_userId = JUndefined, body = []\<rparr>
        (Json (JArr [JObj [(''id'', JStr ''1''), (''userId'', JStr ''u1'')]]))
     = ([NotRouted], Json (JArr [JObj [(''id'', JStr ''1''), (''userId'', JStr ''u1'')]]))
   \<and> delete_route WriteOk ''/post/1''
        \<lparr>params_id = JStr ''1'', req_id = JStr ''u1'', req_userId = JUndefined, body = []\<rparr>
        (Json (JArr []))
     = ([NotRouted], Json (JArr []))
   \<and> Responded 404 (Msg ''Post not found.'')
       \<notin> set (fst (delete_route WriteOk ''/post/1''
            \<lparr>params_id = JStr ''1'', req_id = JStr ''u1'', req_userId = JUndefined, body = []\<rparr>
            (Json (JArr []))))"
  by (simp add: delete_route_def matches_post_def opt_prop_def own_prop_def)

subsection \<open>C8: the fields of a user record\<close>

text \<open>
  C8. The claim: whatever the request body, PUT /profile-update leaves a user record
  with all of \<^verbatim>\<open>id\<close>, \<^verbatim>\<open>email\<close>, \<^verbatim>\<open>password\<close>, \<^verbatim>\<open>firstName\<close>, \<^verbatim>\<open>lastName\<close>. The
  handler assigns what the body gives without a check (POST /post and /login check
  their required fields first): a body with no \<^verbatim>\<open>firstName\<close> and \<^verbatim>\<open>lastName\<close>
  assigns \<^verbatim>\<open>undefined\<close>, which \<^verbatim>\<open>JSON.stringify\<close> leaves out. The record that had all
  five fields is answered with 200 and written back with three.
\<close>

theorem profile_update_drops_names:
  "profile_update WriteOk
     \<lparr>params_id = JUndefined, req_id = JStr ''u1'', req_userId = JUndefined, body = []\<rparr>
     (Json (JArr [JObj [(''id'', JStr ''u1''), (''email'', JStr ''a@x.com''),
                        (''password'', JStr ''hash''), (''firstName'', JStr ''Ann''),
                        (''lastName'', JStr ''Lee'')]]))
   = ([ReadOpened, ReadEnded,
       WriteIssued (Json (JArr [JObj [(''id'', JStr ''u1''), (''email'', JStr ''a@x.com''),
                                      (''password'', JStr ''hash'')]])),
       WriteSettled True, Emitted (JStr ''a@x.com''),
       Responded 200 (Msg ''Profile updated successfully.'')],
      Json (JArr [JObj [(''id'', JStr ''u1''), (''email'', JStr ''a@x.com''),
                        (''password'', JStr ''hash'')]]))
   \<and> has_all_fields (JObj [(''id'', JStr ''u1''), (''email'', JStr ''a@x.com''),
                        (''password'', JStr ''hash''), (''firstName'', JStr ''Ann''),
                        (''lastName'', JStr ''Lee'')])
   \<and> \<not> has_all_fields (JObj [(''id'', JStr ''u1''), (''email'', JStr ''a@x.com''),
                        (''password'', JStr ''hash'')])"
  by (simp add: profile_update_def update_user_def has_id_def own_prop_def has_all_fields_def
        handler_defs)

subsection \<open>C9: posts of a caller who is no user\<close>

text \<open>
  C9. When both collections load, the posts are records, and no user record has the
  caller's id, GET /post answers 200 with one entry for each post whose \<^verbatim>\<open>userId\<close> is
  the caller's id, and every entry has \<^verbatim>\<open>authorName\<close> 'undefined undefined'.
\<close>

theorem get_post_unknown_author:
  assumes "list_all (\<lambda>u. has_id (req_userId req) u = Some False) users"
    and "list_all derefable posts"
  shows "get_post to_string req (Inr posts) (Inr users) =
           [Responded 200 (Payload (json_of (JArr
              (map (\<lambda>p. JObj [(''title'', opt_prop p ''title''),
                               (''description'', opt_prop p ''description''),
                               (''date'', opt_prop p ''date''),
                               (''authorName'', JStr ''undefined undefined'')])
                   (filter (\<lambda>p. strict_eq (opt_prop p ''userId'') (req_userId req)) posts)))))]
         \<and> (\<exists>entries.
               get_post to_string req (Inr posts) (Inr users)
                 = [Responded 200 (Payload (JArr entries))]
               \<and> length entries
                 = length (filter (\<lambda>p. strict_eq (opt_prop p ''userId'') (req_userId req)) posts)
               \<and> list_all (\<lambda>e. get_prop e ''authorName'' = Some (JStr ''undefined undefined''))
                    entries)"
proof -
  let ?mine = "filter (\<lambda>p. strict_eq (opt_prop p ''userId'') (req_userId req)) posts"
  let ?entry = "\<lambda>p. [(''title'', opt_prop p ''title''),
                       (''description'', opt_prop p ''description''),
                       (''date'', opt_prop p ''date''),
                       (''authorName'', JStr ''undefined undefined'')]"
  have u: "js_find (has_id (req_userId req)) users = Some JUndefined"
    using assms(1) by (rule js_find_no_match)
  have f: "js_filter (owned_by (req_userId req)) posts = Some ?mine"
    using assms(2) by (intro js_filter_total) (simp add: list_all_iff owned_by_total)
  have "list_all derefable ?mine" using assms(2) by (simp add: list_all_iff)
  then have m: "js_map (post_response to_string JUndefined) ?mine
                = Some (map (\<lambda>p. JObj (?entry p)) ?mine)"
    by (intro js_map_total) (simp add: list_all_iff post_response_no_user)
  have run: "get_post to_string req (Inr posts) (Inr users) =
           [Responded 200 (Payload (json_of (JArr (map (\<lambda>p. JObj (?entry p)) ?mine))))]"
    using u f m by (simp add: get_post_def Let_def)
  have e: "json_of (JArr (map (\<lambda>p. JObj (?entry p)) ?mine))
           = JArr (map (\<lambda>p. JObj (json_of_props (?entry p))) ?mine)"
    by (simp add: json_of_elems_entries)
  have a: "list_all (\<lambda>e. get_prop e ''authorName'' = Some (JStr ''undefined undefined''))
             (map (\<lambda>p. JObj (json_of_props (?entry p))) ?mine)"
    using json_of_entry [of _ _ _ "''undefined undefined''"]
    by (simp add: list_all_iff) 
  show ?thesis using run e a by simp
qed

theorem get_post_unknown_author_witness:
  "list_all (\<lambda>u. has_id (JStr ''u9'') u = Some False)
     [JObj [(''id'', JStr ''u1''), (''email'', JStr ''a@x.com'')]]
   \<and> list_all derefable [JObj [(''title'', JStr ''Hello''), (''userId'', JStr ''u9'')]]
   \<and> get_post (\<lambda>v. None)
        \<lparr>params_id = JUndefined, req_id = JUndefined, req_userId = JStr ''u9'', body = []\<rparr>
        (Inr [JObj [(''title'', JStr ''Hello''), (''userId'', JStr ''u9'')]])
        (Inr [JObj [(''id'', JStr ''u1''), (''email'', JStr ''a@x.com'')]])
     = [Responded 200 (Payload (JArr
          [JObj [(''title'', JStr ''Hello''),
                 (''authorName'', JStr ''undefined undefined'')]]))]"
proof -
  have n: "list_all (\<lambda>u. has_id (JStr ''u9'') u = Some False)
             [JObj [(''id'', JStr ''u1''), (''email'', JStr ''a@x.com'')]]"
    by (simp add: has_id_def own_prop_def)
  have d: "list_all derefable [JObj [(''title'', JStr ''Hello''), (''userId'', JStr ''u9'')]]"
    by (simp add: derefable_def)
  show ?thesis
    using n d get_post_unknown_author
      [of "\<lparr>params_id = JUndefined, req_id = JUndefined, req_userId = JStr ''u9'',
             body = []\<rparr>"
          "[JObj [(''id'', JStr ''u1''), (''email'', JStr ''a@x.com'')]]"
          "[JObj [(''title'', JStr ''Hello''), (''userId'', JStr ''u9'')]]"
          "\<lambda>v. None"]
    by (simp add: opt_prop_def own_prop_def)
qed

subsection \<open>C10: a profile update by a caller who is no user\<close>

text \<open>
  C10. When no record of the parsed users file has the caller's id and the write
  completes, PUT /profile-update writes the collection back as it loaded it and then
  throws in the callback of the write, on \<^verbatim>\<open>user.email\<close> of the user it did not find:
  the run ends with the uncaught exception and holds no response.
\<close>

theorem profile_update_unknown_caller:
  assumes "list_all (\<lambda>u. has_id (req_id req) u = Some False) loaded"
    and "are_json loaded"
  shows "profile_update WriteOk req (Json (JArr loaded)) =
           ([ReadOpened, ReadEnded, WriteIssued (Json (JArr loaded)), WriteSettled True, Uncaught],
            Json (JArr loaded))"
  using assms
  by (simp add: profile_update_def handler_defs js_map_no_match js_find_no_match json_of_identity)

theorem profile_update_unknown_caller_witness:
  "list_all (\<lambda>u. has_id (JStr ''u9'') u = Some False)
     [JObj [(''id'', JStr ''u1''), (''email'', JStr ''a@x.com'')]]
   \<and> are_json [JObj [(''id'', JStr ''u1''), (''email'', JStr ''a@x.com'')]]
   \<and> profile_update WriteOk
        \<lparr>params_id = JUndefined, req_id = JStr ''u9'', req_userId = JUndefined,
           body = [(''firstName'', JStr ''Bea''), (''lastName'', JStr ''Ray'')]\<rparr>
        (Json (JArr [JObj [(''id'', JStr ''u1''), (''email'', JStr ''a@x.com'')]]))
     = ([ReadOpened, ReadEnded,
         WriteIssued (Json (JArr [JObj [(''id'', JStr ''u1''), (''email'', JStr ''a@x.com'')]])),
         WriteSettled True, Uncaught],
        Json (JArr [JObj [(''id'', JStr ''u1''), (''email'', JStr ''a@x.com'')]]))"
proof -
  have n: "list_all (\<lambda>u. has_id (JStr ''u9'') u = Some False)
             [JObj [(''id'', JStr ''u1''), (''email'', JStr ''a@x.com'')]]"
    by (simp add: has_id_def own_prop_def)
  have j: "are_json [JObj [(''id'', JStr ''u1''), (''email'', JStr ''a@x.com'')]]" by simp
  show ?thesis
    using n j profile_update_unknown_caller
      [of "\<lparr>params_id = JUndefined, req_id = JStr ''u9'', req_userId = JUndefined,
             body = [(''firstName'', JStr ''Bea''), (''lastName'', JStr ''Ray'')]\<rparr>"
          "[JObj [(''id'', JStr ''u1''), (''email'', JStr ''a@x.com'')]]"]
    by simp
qed

end
